theory Spec2Isabelle
  imports Main "HOL-Library.Sublist" "HOL-Library.Word"
begin

section \<open>Bytes, the frame terminator and the buffered reader\<close>

text \<open>
  A Go byte is modelled as an Isabelle \<open>char\<close> (both are 8-bit values), a \<open>[]byte\<close>
  and a Go \<open>string\<close> as a \<open>char list\<close>.
\<close>

type_synonym byte = char
type_synonym bytes = "char list"

definition CR :: byte where "CR = CHR 0x0D"
definition LF :: byte where "LF = CHR 0x0A"

text \<open>common: \<^verbatim>\<open>var EOFBytes = []byte("\r\n")\<close>\<close>

definition EOFBytes :: bytes where
  "EOFBytes = [CR, LF]"

datatype io_error = EOF

text \<open>
  The \<open>reader\<close> interface of package common has the single method
  \<^verbatim>\<open>ReadBytes(delim byte) ([]byte, error)\<close>; the server passes a \<open>bufio.Reader\<close> wrapped
  around the connection. The reader is modelled by the bytes it has buffered and the
  chunks the transport will still hand to its successive reads, after which the
  transport reports end of stream.
\<close>

record reader =
  buffered :: bytes
  pending :: "bytes list"

definition remaining :: "reader \<Rightarrow> bytes" where
  "remaining r = buffered r @ concat (pending r)"

text \<open>
  \<open>bufio.Reader.ReadBytes\<close>: reads until the first occurrence of \<open>delim\<close>, returning the
  data up to and including the delimiter; if the transport fails before a delimiter is
  found, it returns the data read before the error and the error itself.
\<close>

fun fillUntil :: "byte \<Rightarrow> bytes \<Rightarrow> bytes list \<Rightarrow> (bytes \<times> io_error option) \<times> reader" where
  "fillUntil delim buf [] =
     (if delim \<in> set buf
      then ((takeWhile (\<lambda>c. c \<noteq> delim) buf @ [delim], None),
            \<lparr>buffered = tl (dropWhile (\<lambda>c. c \<noteq> delim) buf), pending = []\<rparr>)
      else ((buf, Some EOF), \<lparr>buffered = [], pending = []\<rparr>))"
| "fillUntil delim buf (c # cs) =
     (if delim \<in> set buf
      then ((takeWhile (\<lambda>c. c \<noteq> delim) buf @ [delim], None),
            \<lparr>buffered = tl (dropWhile (\<lambda>c. c \<noteq> delim) buf), pending = c # cs\<rparr>)
      else fillUntil delim (buf @ c) cs)"

definition ReadBytes :: "byte \<Rightarrow> reader \<Rightarrow> (bytes \<times> io_error option) \<times> reader" where
  "ReadBytes delim r = fillUntil delim (buffered r) (pending r)"

lemma tl_dropWhile_shorter:
  "d \<in> set buf \<Longrightarrow> length (tl (dropWhile (\<lambda>c. c \<noteq> d) buf)) < length buf"
proof -
  assume "d \<in> set buf"
  then have "dropWhile (\<lambda>c. c \<noteq> d) buf \<noteq> []" by simp
  then have "length (tl (dropWhile (\<lambda>c. c \<noteq> d) buf)) < length (dropWhile (\<lambda>c. c \<noteq> d) buf)"
    by (cases "dropWhile (\<lambda>c. c \<noteq> d) buf") simp_all
  also have "\<dots> \<le> length buf" by (rule length_dropWhile_le)
  finally show ?thesis .
qed

lemma fillUntil_shrinks:
  "fillUntil d buf cs = ((b, None), r') \<Longrightarrow>
     length (remaining r') < length buf + length (concat cs)"
proof (induction cs arbitrary: buf)
  case Nil
  then show ?case
    using tl_dropWhile_shorter [of d buf]
    by (auto simp: remaining_def split: if_splits)
next
  case (Cons c cs)
  show ?case
  proof (cases "d \<in> set buf")
    case True
    with Cons.prems tl_dropWhile_shorter [of d buf] show ?thesis
      by (auto simp: remaining_def)
  next
    case False
    with Cons.prems have "fillUntil d (buf @ c) cs = ((b, None), r')" by simp
    from Cons.IH [OF this] show ?thesis by simp
  qed
qed

lemma ReadBytes_shrinks:
  "ReadBytes d r = ((b, None), r') \<Longrightarrow> length (remaining r') < length (remaining r)"
  unfolding ReadBytes_def using fillUntil_shrinks [of d "buffered r" "pending r" b r']
  by (simp add: remaining_def)

section \<open>Frame codec: ReadUntil\<close>

text \<open>
  \<^verbatim>\<open>
  func ReadUntil(r reader, delim []byte) (returnBytes []byte, err error) {
      lastChar := delim[len(delim)-1]
      for {
          b, err := r.ReadBytes(lastChar)
          if err != nil { break }
          returnBytes = append(returnBytes, b...)
          if len(returnBytes) > len(delim) {
              bSuffix := returnBytes[len(returnBytes)-len(delim):]
              if bytes.Equal(delim, bSuffix) { break }
          }
      }
      return
  }
  \<close>
  The \<open>err\<close> declared by \<open>:=\<close> inside the loop shadows the named result \<open>err\<close>, which is
  therefore never assigned: the function returns a nil error on every path. Indexing an
  empty \<open>delim\<close> panics.
\<close>

datatype 'a outcome = Panic | Returns 'a

function ReadUntil_loop :: "bytes \<Rightarrow> bytes \<Rightarrow> reader \<Rightarrow> (bytes \<times> io_error option) \<times> reader" where
  "ReadUntil_loop delim returnBytes r =
     (case ReadBytes (last delim) r of
        ((b, Some e), r') \<Rightarrow> ((returnBytes, None), r')
      | ((b, None), r') \<Rightarrow>
          (let returnBytes' = returnBytes @ b in
           if length returnBytes' > length delim
              \<and> drop (length returnBytes' - length delim) returnBytes' = delim
           then ((returnBytes', None), r')
           else ReadUntil_loop delim returnBytes' r'))"
  by pat_completeness auto
termination
  by (relation "measure (\<lambda>(delim, acc, r). length (remaining r))")
     (auto dest: ReadBytes_shrinks [OF sym])

declare ReadUntil_loop.simps [simp del]

definition ReadUntil :: "reader \<Rightarrow> bytes \<Rightarrow> ((bytes \<times> io_error option) \<times> reader) outcome" where
  "ReadUntil r delim =
     (if delim = [] then Panic else Returns (ReadUntil_loop delim [] r))"


section \<open>Envelope model (package common)\<close>

text \<open>
  A \<open>uuid.UUID\<close> is a 16-byte array, modelled as a 128-bit word; the zero value of the
  type is \<open>0\<close>. A Go \<open>error\<close> is modelled by its message. A pointer field that may be
  nil is an \<open>option\<close>.
\<close>

type_synonym UUID = "128 word"
type_synonym error = string
type_synonym RawMessage = bytes

record Conversation =
  conv_ID :: UUID
  conv_Nickname :: string

record Sender =
  sender_ID :: UUID
  sender_Name :: string

type_synonym ClientAboutMe = Sender

record Message =
  msg_Conversation :: "Conversation option"
  msg_Sender :: "Sender option"
  msg_Text :: string

record Error =
  err_Message :: string

record Operation =
  op_Type :: string
  op_Message :: "RawMessage option"

record Response =
  resp_Status :: string
  resp_OperationType :: string
  resp_Error :: "Error option"
  resp_Message :: "RawMessage option"

definition AboutMeOperationType :: string where "AboutMeOperationType = ''aboutme''"
definition CreateOperationType :: string where "CreateOperationType = ''create''"
definition SubscribeOperationType :: string where "SubscribeOperationType = ''subscribe''"
definition MessageOperationType :: string where "MessageOperationType = ''message''"
definition ListOperationType :: string where "ListOperationType = ''list''"

definition emptyJSON :: RawMessage where
  "emptyJSON = [CHR 0x7B, CHR 0x7D]"

definition NewResponse :: Response where
  "NewResponse = \<lparr>resp_Status = [], resp_OperationType = [], resp_Error = None,
                   resp_Message = Some emptyJSON\<rparr>"

text \<open>
  The JSON encoding is an external collaborator (\<open>encoding/json\<close>); the model takes it as
  a parameter. A decoder into a freshly zeroed struct returns the decoded struct, or
  \<open>None\<close> when \<open>json.Unmarshal\<close> reports an error. \<open>Unmarshal_ClientAboutMe\<close> returns
  the fields the document carries: \<open>json.Unmarshal\<close> into an existing struct assigns
  exactly those and leaves the other fields as they were. \<open>Unmarshal_Conversations\<close> is
  given the slice it decodes into. An encoder returns the bytes, or the error of
  \<open>json.Marshal\<close>.
\<close>

record json =
  Unmarshal_Operation :: "bytes \<Rightarrow> Operation option"
  Unmarshal_Conversation :: "bytes \<Rightarrow> Conversation option"
  Unmarshal_Message :: "bytes \<Rightarrow> Message option"
  Unmarshal_ClientAboutMe :: "bytes \<Rightarrow> (UUID option \<times> string option) option"
  Unmarshal_Response :: "bytes \<Rightarrow> Response option"
  Unmarshal_Conversations :: "bytes \<Rightarrow> Conversation list \<Rightarrow> Conversation list option"
  Marshal_Operation :: "Operation \<Rightarrow> error + bytes"
  Marshal_Response :: "Response \<Rightarrow> error + bytes"
  Marshal_Message :: "Message \<Rightarrow> error + bytes"
  Marshal_ClientAboutMe :: "ClientAboutMe \<Rightarrow> error + bytes"
  Marshal_Conversations :: "Conversation list \<Rightarrow> error + bytes"

section \<open>The connection's write side\<close>

text \<open>
  A \<open>net.Conn\<close> as the writers see it: the bytes written so far, and whether \<open>Close\<close>
  has been called. \<open>Write\<close> on a closed connection writes nothing and returns an error.
\<close>

record conn =
  written :: bytes
  closed :: bool

definition errClosed :: error where
  "errClosed = ''use of closed network connection''"

definition Write :: "conn \<Rightarrow> bytes \<Rightarrow> error option \<times> conn" where
  "Write c b = (if closed c then (Some errClosed, c)
                else (None, c\<lparr>written := written c @ b\<rparr>))"

definition Close :: "conn \<Rightarrow> conn" where
  "Close c = c\<lparr>closed := True\<rparr>"

section \<open>Server: response writers\<close>

definition unmarshalingError :: error where
  "unmarshalingError = ''Error while unmarshaling data. Please check again''"

text \<open>
  \<^verbatim>\<open>
  func writeErrorResponse(conn net.Conn, s string) {
      defer conn.Close()
      errorMessage := common.Error{Message: s}
      response := common.NewResponse()
      response.Status = "error"
      response.Error = &errorMessage
      responseBytes, err := json.Marshal(response)
      if err != nil { log.Printf(...) }
      conn.Write(responseBytes)
      conn.Write(common.EOFBytes)
      conn.Close()
  }
  \<close>
\<close>

definition errorResponse :: "string \<Rightarrow> Response" where
  "errorResponse s = NewResponse\<lparr>resp_Status := ''error'',
                                 resp_Error := Some \<lparr>err_Message = s\<rparr>\<rparr>"

definition writeErrorResponse :: "json \<Rightarrow> conn \<Rightarrow> string \<Rightarrow> conn" where
  "writeErrorResponse js c s =
     (let responseBytes = (case Marshal_Response js (errorResponse s) of
                             Inl e \<Rightarrow> [] | Inr b \<Rightarrow> b);
          c1 = snd (Write c responseBytes);
          c2 = snd (Write c1 EOFBytes)
      in Close (Close c2))"

text \<open>
  \<^verbatim>\<open>
  func writeOKResponse(conn net.Conn, message *json.RawMessage, operationType string) error {
      response := common.NewResponse()
      response.Status = "ok"
      if operationType != "" { response.OperationType = operationType }
      if !bytes.Equal(*message, []byte{}) { response.Message = message }
      responseBytes, err := json.Marshal(response)
      if err != nil { return errors.New("Something went wrong") }
      _, err = conn.Write(append(responseBytes, common.EOFBytes...))
      if err != nil { return err }
      return nil
  }
  \<close>
  Every caller passes the address of a local variable, so \<open>message\<close> is never nil.
\<close>

definition okResponse :: "RawMessage \<Rightarrow> string \<Rightarrow> Response" where
  "okResponse message operationType =
     (let response = NewResponse\<lparr>resp_Status := ''ok''\<rparr>;
          response = (if operationType \<noteq> [] then response\<lparr>resp_OperationType := operationType\<rparr>
                      else response);
          response = (if message \<noteq> [] then response\<lparr>resp_Message := Some message\<rparr>
                      else response)
      in response)"

definition writeOKResponse :: "json \<Rightarrow> conn \<Rightarrow> RawMessage \<Rightarrow> string \<Rightarrow> error option \<times> conn" where
  "writeOKResponse js c message operationType =
     (case Marshal_Response js (okResponse message operationType) of
        Inl e \<Rightarrow> (Some ''Something went wrong'', c)
      | Inr responseBytes \<Rightarrow> Write c (responseBytes @ EOFBytes))"


section \<open>Server: the conversation registry and the handlers\<close>

text \<open>
  The package-level variables of the server:
  \<^verbatim>\<open>
  var conversationIDs = map[uuid.UUID]bool{}
  var conversations = []*common.Conversation{}
  var conversationsByNickname = map[string]*common.Conversation{}
  \<close>
  A conversation is never modified after it has been stored, so the pointers are
  modelled by the values they point to.
\<close>

record registry =
  conversationIDs :: "UUID \<rightharpoonup> bool"
  conversations :: "Conversation list"
  conversationsByNickname :: "string \<rightharpoonup> Conversation"

definition emptyRegistry :: registry where
  "emptyRegistry = \<lparr>conversationIDs = Map.empty, conversations = [],
                     conversationsByNickname = Map.empty\<rparr>"

text \<open>\<open>strconv.Itoa\<close>: the decimal representation of an integer.\<close>

definition digit :: "nat \<Rightarrow> char" where
  "digit d = ''0123456789'' ! d"

function FormatUint :: "nat \<Rightarrow> string" where
  "FormatUint n = (if n < 10 then [digit n] else FormatUint (n div 10) @ [digit (n mod 10)])"
  by pat_completeness auto
termination
  by (relation "measure id") auto

declare FormatUint.simps [simp del]

definition Itoa :: "int \<Rightarrow> string" where
  "Itoa i = (if i < 0 then CHR ''-'' # FormatUint (nat (- i)) else FormatUint (nat i))"

definition quote :: char where "quote = CHR 0x27"

text \<open>
  \<^verbatim>\<open>
  func handleCreateConversation(op *common.Operation) error {
      conversation := &common.Conversation{}
      err := json.Unmarshal(*op.Message, conversation)
      if err != nil { return errors.New(unmarshalingError) }
      conversation.ID = uuid.New()
      if conversation.Nickname == "" {
          conversation.Nickname = strconv.Itoa(len(conversations))
      }
      if _, ok := conversationsByNickname[conversation.Nickname]; ok {
          err := fmt.Sprintf("conversation with nickname '%s' already exists", conversation.Nickname)
          return errors.New(err)
      }
      conversations = append(conversations, conversation)
      conversationIDs[conversation.ID] = true
      conversationsByNickname[conversation.Nickname] = conversation
      return nil
  }
  \<close>
  \<open>newid\<close> is the value \<open>uuid.New()\<close> returns in this call. Dereferencing a nil
  \<open>op.Message\<close> panics.
\<close>

definition alreadyExists :: "string \<Rightarrow> error" where
  "alreadyExists nickname =
     ''conversation with nickname '' @ [quote] @ nickname @ [quote] @ '' already exists''"

definition handleCreateConversation ::
  "json \<Rightarrow> Operation \<Rightarrow> UUID \<Rightarrow> registry \<Rightarrow> (error option \<times> registry) outcome" where
  "handleCreateConversation js op newid reg =
     (case op_Message op of
        None \<Rightarrow> Panic
      | Some m \<Rightarrow>
          (case Unmarshal_Conversation js m of
             None \<Rightarrow> Returns (Some unmarshalingError, reg)
           | Some conversation \<Rightarrow>
               (let conversation = conversation\<lparr>conv_ID := newid\<rparr>;
                    conversation =
                      (if conv_Nickname conversation = []
                       then conversation\<lparr>conv_Nickname := Itoa (int (length (conversations reg)))\<rparr>
                       else conversation)
                in if conversationsByNickname reg (conv_Nickname conversation) \<noteq> None
                   then Returns (Some (alreadyExists (conv_Nickname conversation)), reg)
                   else Returns (None,
                     \<lparr>conversationIDs = (conversationIDs reg)(conv_ID conversation \<mapsto> True),
                      conversations = conversations reg @ [conversation],
                      conversationsByNickname =
                        (conversationsByNickname reg)(conv_Nickname conversation \<mapsto> conversation)\<rparr>))))"

text \<open>
  \<^verbatim>\<open>
  func handleListConversations(op *common.Operation) (*json.RawMessage, error) {
      emptyJSON := json.RawMessage("{}")
      conversationsJSON, err := json.Marshal(conversations)
      if err != nil { return &emptyJSON, err }
      responseMessage := json.RawMessage(conversationsJSON)
      return &responseMessage, err
  }
  \<close>
\<close>

definition handleListConversations :: "json \<Rightarrow> Operation \<Rightarrow> registry \<Rightarrow> RawMessage \<times> error option" where
  "handleListConversations js op reg =
     (case Marshal_Conversations js (conversations reg) of
        Inl err \<Rightarrow> (emptyJSON, Some err)
      | Inr conversationsJSON \<Rightarrow> (conversationsJSON, None))"

text \<open>
  \<^verbatim>\<open>
  func handleSubscribe(op *common.Operation, conversationsToListenOn map[uuid.UUID]bool) error {
      inputConversation := &common.Conversation{}
      err := json.Unmarshal(*op.Message, inputConversation)
      if err != nil { return errors.New(unmarshalingError) }
      nickname := inputConversation.Nickname
      conversation, ok := conversationsByNickname[nickname]
      if !ok {
          err := fmt.Sprintf("conversation '%s' does not exist", nickname)
          return errors.New(err)
      }
      convID := conversation.ID
      conversationsToListenOn[convID] = true
      return nil
  }
  \<close>
\<close>

definition doesNotExist :: "string \<Rightarrow> error" where
  "doesNotExist nickname =
     ''conversation '' @ [quote] @ nickname @ [quote] @ '' does not exist''"

definition handleSubscribe ::
  "json \<Rightarrow> Operation \<Rightarrow> (UUID \<rightharpoonup> bool) \<Rightarrow> registry \<Rightarrow> (error option \<times> (UUID \<rightharpoonup> bool)) outcome" where
  "handleSubscribe js op conversationsToListenOn reg =
     (case op_Message op of
        None \<Rightarrow> Panic
      | Some m \<Rightarrow>
          (case Unmarshal_Conversation js m of
             None \<Rightarrow> Returns (Some unmarshalingError, conversationsToListenOn)
           | Some inputConversation \<Rightarrow>
               (let nickname = conv_Nickname inputConversation in
                case conversationsByNickname reg nickname of
                  None \<Rightarrow> Returns (Some (doesNotExist nickname), conversationsToListenOn)
                | Some conversation \<Rightarrow>
                    Returns (None, conversationsToListenOn(conv_ID conversation \<mapsto> True)))))"

text \<open>
  \<^verbatim>\<open>
  func handleMessage(op *common.Operation) (*json.RawMessage, error) {
      message := json.RawMessage("{}")
      convMessage := common.Message{}
      err := json.Unmarshal(*op.Message, &convMessage)
      if err != nil { return &message, errors.New(unmarshalingError) }
      messagesChannel <- convMessage
      return &message, nil
  }
  \<close>
  The third component of the result is the message sent on \<open>messagesChannel\<close>, if any.
\<close>

definition handleMessage ::
  "json \<Rightarrow> Operation \<Rightarrow> ((RawMessage \<times> error option) \<times> Message option) outcome" where
  "handleMessage js op =
     (case op_Message op of
        None \<Rightarrow> Panic
      | Some m \<Rightarrow>
          (case Unmarshal_Message js m of
             None \<Rightarrow> Returns ((emptyJSON, Some unmarshalingError), None)
           | Some convMessage \<Rightarrow> Returns ((emptyJSON, None), Some convMessage)))"

text \<open>
  \<^verbatim>\<open>
  func ParseClientAboutMe(b []byte) (*common.ClientAboutMe, error) {
      aboutClient := &common.ClientAboutMe{ID: uuid.New()}
      err := json.Unmarshal(b, aboutClient)
      if err != nil { return aboutClient, errors.New(unmarshalingError) }
      return aboutClient, nil
  }
  \<close>
  On the error path the only caller discards the struct, so the model returns the error
  alone.
\<close>

definition ParseClientAboutMe :: "json \<Rightarrow> UUID \<Rightarrow> bytes \<Rightarrow> error + ClientAboutMe" where
  "ParseClientAboutMe js newid b =
     (let aboutClient = \<lparr>sender_ID = newid, sender_Name = []\<rparr> in
      case Unmarshal_ClientAboutMe js b of
        None \<Rightarrow> Inl unmarshalingError
      | Some (docID, docName) \<Rightarrow>
          Inr \<lparr>sender_ID = (case docID of None \<Rightarrow> sender_ID aboutClient | Some i \<Rightarrow> i),
               sender_Name = (case docName of None \<Rightarrow> sender_Name aboutClient | Some n \<Rightarrow> n)\<rparr>)"

definition getOperation :: "json \<Rightarrow> bytes \<Rightarrow> error + Operation" where
  "getOperation js b =
     (case Unmarshal_Operation js b of
        None \<Rightarrow> Inl unmarshalingError
      | Some operation \<Rightarrow> Inr operation)"

text \<open>
  \<^verbatim>\<open>
  func sendAboutMeResponse(conn net.Conn, aboutClient *common.ClientAboutMe) error {
      b, err := json.Marshal(aboutClient)
      if err != nil { return err }
      jsonAboutClient := json.RawMessage(b)
      writeOKResponse(conn, &jsonAboutClient, common.AboutMeOperationType)
      return nil
  }
  \<close>
\<close>

definition sendAboutMeResponse :: "json \<Rightarrow> conn \<Rightarrow> ClientAboutMe \<Rightarrow> error option \<times> conn" where
  "sendAboutMeResponse js c aboutClient =
     (case Marshal_ClientAboutMe js aboutClient of
        Inl err \<Rightarrow> (Some err, c)
      | Inr b \<Rightarrow> (None, snd (writeOKResponse js c b AboutMeOperationType)))"

section \<open>Server: the session loop\<close>

text \<open>
  The state a connection's goroutine works on: the buffered reader and the write side of
  its connection, and the local map \<open>conversationsToListenOn\<close>.
\<close>

record session =
  connReader :: reader
  sess_conn :: conn
  listenOn :: "UUID \<rightharpoonup> bool"

datatype ctl = Continue | Break

text \<open>
  The \<open>switch operation.Type\<close> of the loop. The result is the response payload, the
  error, the subscription map, the registry and the message sent on the channel. An
  operation type that matches no case leaves \<open>response\<close> at \<open>{}\<close> and \<open>err\<close> nil.
\<close>

definition dispatch ::
  "json \<Rightarrow> Operation \<Rightarrow> UUID \<Rightarrow> (UUID \<rightharpoonup> bool) \<Rightarrow> registry \<Rightarrow>
     (RawMessage \<times> error option \<times> (UUID \<rightharpoonup> bool) \<times> registry \<times> Message option) outcome" where
  "dispatch js operation newid subs reg =
     (if op_Type operation = CreateOperationType then
        (case handleCreateConversation js operation newid reg of
           Panic \<Rightarrow> Panic
         | Returns (err, reg') \<Rightarrow> Returns (emptyJSON, err, subs, reg', None))
      else if op_Type operation = SubscribeOperationType then
        (case handleSubscribe js operation subs reg of
           Panic \<Rightarrow> Panic
         | Returns (err, subs') \<Rightarrow> Returns (emptyJSON, err, subs', reg, None))
      else if op_Type operation = MessageOperationType then
        (case handleMessage js operation of
           Panic \<Rightarrow> Panic
         | Returns ((response, err), sent) \<Rightarrow> Returns (response, err, subs, reg, sent))
      else if op_Type operation = ListOperationType then
        (case handleListConversations js operation reg of
           (response, err) \<Rightarrow> Returns (response, err, subs, reg, None))
      else Returns (emptyJSON, None, subs, reg, None))"

text \<open>
  One pass through the body of the \<open>for\<close> loop of \<open>handleConnection\<close>:
  \<^verbatim>\<open>
      request, err := common.ReadUntil(connReader, common.EOFBytes)
      if err == io.EOF { break } else { common.CheckErrorAndLog(err) }
      operation, err := getOperation(request)
      if common.CheckErrorAndLog(err) { writeErrorResponse(conn, err.Error()); break }
      emptyJSON := json.RawMessage("{}")
      var response = &emptyJSON
      switch operation.Type { ... }
      if err != nil { writeErrorResponse(conn, err.Error()); break }
      err = writeOKResponse(conn, response, operation.Type)
      if err != nil { writeErrorResponse(conn, err.Error()); break }
  \<close>
\<close>

definition handleConnection_iteration ::
  "json \<Rightarrow> UUID \<Rightarrow> session \<Rightarrow> registry \<Rightarrow> (ctl \<times> session \<times> registry \<times> Message option) outcome" where
  "handleConnection_iteration js newid s reg =
     (case ReadUntil (connReader s) EOFBytes of
        Panic \<Rightarrow> Panic
      | Returns ((request, err), r') \<Rightarrow>
          (let s = s\<lparr>connReader := r'\<rparr> in
           if err = Some EOF then Returns (Break, s, reg, None)
           else
             (case getOperation js request of
                Inl e \<Rightarrow>
                  Returns (Break, s\<lparr>sess_conn := writeErrorResponse js (sess_conn s) e\<rparr>, reg, None)
              | Inr operation \<Rightarrow>
                  (case dispatch js operation newid (listenOn s) reg of
                     Panic \<Rightarrow> Panic
                   | Returns (response, err, subs', reg', sent) \<Rightarrow>
                       (let s = s\<lparr>listenOn := subs'\<rparr> in
                        case err of
                          Some e \<Rightarrow>
                            Returns (Break,
                              s\<lparr>sess_conn := writeErrorResponse js (sess_conn s) e\<rparr>, reg', sent)
                        | None \<Rightarrow>
                            (case writeOKResponse js (sess_conn s) response (op_Type operation) of
                               (Some e, c) \<Rightarrow>
                                 Returns (Break, s\<lparr>sess_conn := writeErrorResponse js c e\<rparr>, reg', sent)
                             | (None, c) \<Rightarrow>
                                 Returns (Continue, s\<lparr>sess_conn := c\<rparr>, reg', sent)))))))"

text \<open>
  The loop, for one connection served on its own. \<open>gen n\<close> is the value the \<open>n\<close>-th
  call of \<open>uuid.New()\<close> returns; the messages handed to \<open>messagesChannel\<close> are
  collected in order. The loop need not end for every decoder, so its result is an
  \<open>option\<close>: \<open>None\<close> stands for a loop that never exits.
\<close>

partial_function (option) handleConnection_loop ::
  "json \<Rightarrow> (nat \<Rightarrow> UUID) \<Rightarrow> nat \<Rightarrow> session \<Rightarrow> registry \<Rightarrow> Message list \<Rightarrow>
     ((session \<times> registry \<times> Message list) outcome) option" where
  "handleConnection_loop js gen n s reg sent =
     (case handleConnection_iteration js (gen n) s reg of
        Panic \<Rightarrow> Some Panic
      | Returns (c, s', reg', m) \<Rightarrow>
          (if c = Break
           then Some (Returns (s', reg', sent @ (case m of None \<Rightarrow> [] | Some x \<Rightarrow> [x])))
           else handleConnection_loop js gen (Suc n) s' reg'
                  (sent @ (case m of None \<Rightarrow> [] | Some x \<Rightarrow> [x]))))"

text \<open>
  The part of \<open>handleConnection\<close> before the loop:
  \<^verbatim>\<open>
      connReader := bufio.NewReader(conn)
      request, err := common.ReadUntil(connReader, common.EOFBytes)
      if common.CheckErrorAndLog(err) { writeErrorResponse(conn, "Some error occurred"); return }
      operation, err := getOperation(request)
      if common.CheckErrorAndLog(err) { writeErrorResponse(conn, err.Error()); return }
      aboutClient, err := ParseClientAboutMe(*operation.Message)
      if common.CheckErrorAndLog(err) { writeErrorResponse(conn, err.Error()); return }
      err = sendAboutMeResponse(conn, aboutClient)
      if common.CheckErrorAndLog(err) { writeErrorResponse(conn, err.Error()); return }
      conversationsToListenOn := map[uuid.UUID]bool{}
  \<close>
  The boolean of the result tells whether the loop is entered; the identity is the one
  \<open>ParseClientAboutMe\<close> returned.
\<close>

definition handshake ::
  "json \<Rightarrow> UUID \<Rightarrow> reader \<Rightarrow> conn \<Rightarrow> (session \<times> ClientAboutMe option) outcome" where
  "handshake js newid r c =
     (case ReadUntil r EOFBytes of
        Panic \<Rightarrow> Panic
      | Returns ((request, err), r') \<Rightarrow>
          (if err \<noteq> None
           then Returns (\<lparr>connReader = r', sess_conn = writeErrorResponse js c ''Some error occurred'',
                          listenOn = Map.empty\<rparr>, None)
           else
             (case getOperation js request of
                Inl e \<Rightarrow>
                  Returns (\<lparr>connReader = r', sess_conn = writeErrorResponse js c e,
                            listenOn = Map.empty\<rparr>, None)
              | Inr operation \<Rightarrow>
                  (case op_Message operation of
                     None \<Rightarrow> Panic
                   | Some m \<Rightarrow>
                       (case ParseClientAboutMe js newid m of
                          Inl e \<Rightarrow>
                            Returns (\<lparr>connReader = r', sess_conn = writeErrorResponse js c e,
                                      listenOn = Map.empty\<rparr>, None)
                        | Inr aboutClient \<Rightarrow>
                            (case sendAboutMeResponse js c aboutClient of
                               (Some e, c') \<Rightarrow>
                                 Returns (\<lparr>connReader = r', sess_conn = writeErrorResponse js c' e,
                                           listenOn = Map.empty\<rparr>, None)
                             | (None, c') \<Rightarrow>
                                 Returns (\<lparr>connReader = r', sess_conn = c', listenOn = Map.empty\<rparr>,
                                          Some aboutClient)))))))"

definition handleConnection ::
  "json \<Rightarrow> (nat \<Rightarrow> UUID) \<Rightarrow> reader \<Rightarrow> conn \<Rightarrow> registry \<Rightarrow>
     ((session \<times> registry \<times> Message list) outcome) option" where
  "handleConnection js gen r c reg =
     (case handshake js (gen 0) r c of
        Panic \<Rightarrow> Some Panic
      | Returns (s, None) \<Rightarrow> Some (Returns (s, reg, []))
      | Returns (s, Some aboutClient) \<Rightarrow> handleConnection_loop js gen 1 s reg [])"

section \<open>Server: message delivery\<close>

text \<open>
  The branch of \<open>subscribeToMessages\<close> that runs once a message has been received
  from \<open>messagesChannel\<close>:
  \<^verbatim>\<open>
      case message := <-messagesChannel:
          if conversationsToListenOn[message.Conversation.ID] {
              responseBytes, err := json.Marshal(message)
              if err != nil { continue }
              responseJSON := json.RawMessage(responseBytes)
              writeOKResponse(conn, &responseJSON, common.MessageOperationType)
          }
  \<close>
  Reading a key that is absent from a Go map gives \<open>false\<close>; a nil
  \<open>message.Conversation\<close> panics.
\<close>

definition subscribed :: "(UUID \<rightharpoonup> bool) \<Rightarrow> UUID \<Rightarrow> bool" where
  "subscribed m k = (case m k of None \<Rightarrow> False | Some b \<Rightarrow> b)"

definition subscribeToMessages_receive ::
  "json \<Rightarrow> conn \<Rightarrow> (UUID \<rightharpoonup> bool) \<Rightarrow> Message \<Rightarrow> conn outcome" where
  "subscribeToMessages_receive js c conversationsToListenOn message =
     (case msg_Conversation message of
        None \<Rightarrow> Panic
      | Some conversation \<Rightarrow>
          (if subscribed conversationsToListenOn (conv_ID conversation)
           then (case Marshal_Message js message of
                   Inl err \<Rightarrow> Returns c
                 | Inr responseBytes \<Rightarrow>
                     Returns (snd (writeOKResponse js c responseBytes MessageOperationType)))
           else Returns c))"

text \<open>
  The server as a whole. Every accepted connection has its \<open>handleConnection\<close>
  goroutine (\<open>serving\<close> while its loop has not exited) and its \<open>subscribeToMessages\<close>
  goroutine, which is blocked in its \<open>select\<close>, holds a message it has received and not
  yet processed, or has returned. \<open>messagesChannel\<close> is unbuffered: a send completes
  together with the receive of exactly one goroutine, chosen by the scheduler. A panic
  in any goroutine ends the process.
\<close>

datatype subscriber = Selecting | Holding Message | Stopped

record connection =
  sess :: session
  serving :: bool
  companion :: subscriber

record server =
  reg :: registry
  conns :: "connection list"
  crashed :: bool

definition initialServer :: server where
  "initialServer = \<lparr>reg = emptyRegistry, conns = [], crashed = False\<rparr>"

text \<open>
  The scheduler's choices: a client connects with the given input stream and the
  handshake runs; connection \<open>i\<close> runs one pass of its loop and, if that pass sends a
  message, the subscriber goroutine of connection \<open>j\<close> receives it; the subscriber of
  connection \<open>j\<close> processes the message it holds; the subscriber of connection \<open>j\<close>
  receives \<open>quit\<close>, which is sent once the loop of \<open>j\<close> has exited.
\<close>

datatype event = Accept reader UUID | Serve nat UUID nat | Deliver nat | Quit nat

fun exec :: "json \<Rightarrow> server \<Rightarrow> event \<Rightarrow> server option" where
  "exec js s (Accept r newid) =
     (if crashed s then None
      else (case handshake js newid r \<lparr>written = [], closed = False\<rparr> of
              Panic \<Rightarrow> Some (s\<lparr>crashed := True\<rparr>)
            | Returns (se, None) \<Rightarrow>
                Some (s\<lparr>conns := conns s @ [\<lparr>sess = se, serving = False, companion = Stopped\<rparr>]\<rparr>)
            | Returns (se, Some aboutClient) \<Rightarrow>
                Some (s\<lparr>conns := conns s @ [\<lparr>sess = se, serving = True, companion = Selecting\<rparr>]\<rparr>)))"
| "exec js s (Serve i newid j) =
     (if crashed s \<or> length (conns s) \<le> i then None
      else if \<not> serving (conns s ! i) then None
      else (case handleConnection_iteration js newid (sess (conns s ! i)) (reg s) of
              Panic \<Rightarrow> Some (s\<lparr>crashed := True\<rparr>)
            | Returns (c, se, reg', m) \<Rightarrow>
                (let cs = (conns s)[i := (conns s ! i)\<lparr>sess := se, serving := (c = Continue)\<rparr>] in
                 case m of
                   None \<Rightarrow> Some (s\<lparr>reg := reg', conns := cs\<rparr>)
                 | Some message \<Rightarrow>
                     (if j < length cs \<and> companion (cs ! j) = Selecting
                      then Some (s\<lparr>reg := reg',
                                   conns := cs[j := (cs ! j)\<lparr>companion := Holding message\<rparr>]\<rparr>)
                      else None))))"
| "exec js s (Deliver j) =
     (if crashed s \<or> length (conns s) \<le> j then None
      else (case companion (conns s ! j) of
              Holding message \<Rightarrow>
                (case subscribeToMessages_receive js (sess_conn (sess (conns s ! j)))
                        (listenOn (sess (conns s ! j))) message of
                   Panic \<Rightarrow> Some (s\<lparr>crashed := True\<rparr>)
                 | Returns c \<Rightarrow>
                     Some (s\<lparr>conns := (conns s)[j := (conns s ! j)
                             \<lparr>sess := (sess (conns s ! j))\<lparr>sess_conn := c\<rparr>,
                              companion := Selecting\<rparr>]\<rparr>))
            | Selecting \<Rightarrow> None
            | Stopped \<Rightarrow> None))"
| "exec js s (Quit j) =
     (if crashed s \<or> length (conns s) \<le> j then None
      else if \<not> serving (conns s ! j) \<and> companion (conns s ! j) = Selecting
      then Some (s\<lparr>conns := (conns s)[j := (conns s ! j)\<lparr>companion := Stopped\<rparr>]\<rparr>)
      else None)"

fun run :: "json \<Rightarrow> server \<Rightarrow> event list \<Rightarrow> server option" where
  "run js s [] = Some s"
| "run js s (e # es) = (case exec js s e of None \<Rightarrow> None | Some s' \<Rightarrow> run js s' es)"

text \<open>The bytes connection \<open>j\<close> has been sent so far.\<close>

definition sentTo :: "server \<Rightarrow> nat \<Rightarrow> bytes" where
  "sentTo s j = written (sess_conn (sess (conns s ! j)))"

section \<open>Client: frame writer and receiver loop\<close>

text \<open>
  \<^verbatim>\<open>
  func writeJSONTo(conn net.Conn, v interface{}) error {
      b, err := json.Marshal(v)
      if err != nil { return err }
      _, err = conn.Write(append(b, common.EOFBytes...))
      if err != nil { return err }
      conn.Write(common.EOFBytes)
      return nil
  }
  \<close>
  Every call in the client passes a \<open>common.Operation\<close>.
\<close>

definition writeJSONTo :: "json \<Rightarrow> conn \<Rightarrow> Operation \<Rightarrow> error option \<times> conn" where
  "writeJSONTo js c v =
     (case Marshal_Operation js v of
        Inl err \<Rightarrow> (Some err, c)
      | Inr b \<Rightarrow>
          (case Write c (b @ EOFBytes) of
             (Some err, c') \<Rightarrow> (Some err, c')
           | (None, c') \<Rightarrow> (None, snd (Write c' EOFBytes))))"

text \<open>
  The client's package-level variables and what it has printed to standard output.
  \<open>log.Fatalf\<close> (through \<open>common.CheckError\<close>) ends the process; a nil dereference
  panics.
\<close>

record client =
  globalConversations :: "Conversation list"
  clientInfo :: ClientAboutMe
  stdout :: string

datatype 'a effect = Fatal | Crash | Ok 'a

definition ESC :: char where "ESC = CHR 0x1B"

definition handleAboutMeOperationResponse :: "json \<Rightarrow> RawMessage option \<Rightarrow> client \<Rightarrow> client effect" where
  "handleAboutMeOperationResponse js aboutMeResponse st =
     (case aboutMeResponse of
        None \<Rightarrow> Crash
      | Some m \<Rightarrow>
          (case Unmarshal_ClientAboutMe js m of
             None \<Rightarrow> Fatal
           | Some (docID, docName) \<Rightarrow>
               Ok (st\<lparr>clientInfo :=
                     \<lparr>sender_ID = (case docID of None \<Rightarrow> sender_ID (clientInfo st) | Some i \<Rightarrow> i),
                      sender_Name = (case docName of None \<Rightarrow> sender_Name (clientInfo st)
                                     | Some n \<Rightarrow> n)\<rparr>\<rparr>)))"

definition handleListOperationResponse :: "json \<Rightarrow> RawMessage option \<Rightarrow> client \<Rightarrow> client effect" where
  "handleListOperationResponse js jsonConversations st =
     (case jsonConversations of
        None \<Rightarrow> Crash
      | Some m \<Rightarrow>
          (case Unmarshal_Conversations js m (globalConversations st) of
             None \<Rightarrow> Fatal
           | Some cs \<Rightarrow> Ok (st\<lparr>globalConversations := cs\<rparr>)))"

text \<open>
  \<^verbatim>\<open>
  func handleMessageOperationResponse(jsonMessage *json.RawMessage) {
      message := common.Message{}
      err := json.Unmarshal(*jsonMessage, &message)
      common.CheckError(err)
      fmt.Printf("\n\033[1m<@%s>\033[0m: %s\n", message.Sender.Name, message.Text)
  }
  \<close>
\<close>

definition handleMessageOperationResponse :: "json \<Rightarrow> RawMessage option \<Rightarrow> client \<Rightarrow> client effect" where
  "handleMessageOperationResponse js jsonMessage st =
     (case jsonMessage of
        None \<Rightarrow> Crash
      | Some m \<Rightarrow>
          (case Unmarshal_Message js m of
             None \<Rightarrow> Fatal
           | Some message \<Rightarrow>
               (case msg_Sender message of
                  None \<Rightarrow> Crash
                | Some sender \<Rightarrow>
                    Ok (st\<lparr>stdout := stdout st @ [LF, ESC] @ ''[1m<@'' @ sender_Name sender
                          @ ''>'' @ [ESC] @ ''[0m: '' @ msg_Text message @ [LF]\<rparr>))))"

definition handleResponse :: "json \<Rightarrow> Response \<Rightarrow> client \<Rightarrow> client effect" where
  "handleResponse js response st =
     (if resp_OperationType response = ListOperationType
      then handleListOperationResponse js (resp_Message response) st
      else if resp_OperationType response = MessageOperationType
      then handleMessageOperationResponse js (resp_Message response) st
      else if resp_OperationType response = AboutMeOperationType
      then handleAboutMeOperationResponse js (resp_Message response) st
      else Ok st)"

text \<open>
  \<^verbatim>\<open>
  func readJSONFrom(conn net.Conn, v interface{}) error {
      buf := make([]byte, 1024)
      nBytes, err := bufio.NewReader(conn).Read(buf)
      if err != nil { return err }
      err = json.Unmarshal(buf[:nBytes], v)
      if err != nil { return err }
      return nil
  }
  \<close>
  What the transport does to one \<open>Read\<close> is an input of the model: the read deadline
  passes (the error satisfies \<open>errors.Is(err, os.ErrDeadlineExceeded)\<close>), the read
  fails otherwise, or it yields bytes.
\<close>

datatype read_error = DeadlineExceeded | OtherError
datatype read_outcome = ReadFails read_error | ReadGives bytes

definition readJSONFrom :: "json \<Rightarrow> read_outcome \<Rightarrow> read_error + Response" where
  "readJSONFrom js rd =
     (case rd of
        ReadFails err \<Rightarrow> Inl err
      | ReadGives buf \<Rightarrow>
          (case Unmarshal_Response js buf of
             None \<Rightarrow> Inl OtherError
           | Some response \<Rightarrow> Inr response))"

text \<open>
  \<^verbatim>\<open>
  func handleIncoming(conn net.Conn, quit chan bool) {
      for {
          conn.SetReadDeadline(time.Now().Add(10 * time.Minute))
          select {
          case <-quit:
              return
          default:
              response := common.Response{}
              conn.SetReadDeadline(time.Now().Add(2 * time.Second))
              err := readJSONFrom(conn, &response)
              if errors.Is(err, os.ErrDeadlineExceeded) { continue }
              if err != nil { common.CheckError(err) }
              if response.Status == "ok" {
                  log.Printf("Received OK response: %s\n", string(*response.Message))
              } else if response.Status == "error" {
                  err := fmt.Sprintf("got error response from server: %s", response.Error.Message)
                  common.CheckErrorAndLog(errors.New(err))
              }
              handleResponse(response)
          }
      }
  }
  \<close>
  The loop is run on the list of what its successive passes meet: whether a value is
  ready on \<open>quit\<close> when the \<open>select\<close> is reached, and the outcome of the read. When the
  list is used up the loop is still running.
\<close>

datatype receiver = Running client | Returned client | Exited | Panicked

fun handleIncoming :: "json \<Rightarrow> (bool \<times> read_outcome) list \<Rightarrow> client \<Rightarrow> receiver" where
  "handleIncoming js [] st = Running st"
| "handleIncoming js ((quit, rd) # rest) st =
     (if quit then Returned st
      else
        (case readJSONFrom js rd of
           Inl DeadlineExceeded \<Rightarrow> handleIncoming js rest st
         | Inl OtherError \<Rightarrow> Exited
         | Inr response \<Rightarrow>
             (if resp_Status response = ''ok'' \<and> resp_Message response = None then Panicked
              else if resp_Status response \<noteq> ''ok'' \<and> resp_Status response = ''error''
                      \<and> resp_Error response = None then Panicked
              else (case handleResponse js response st of
                      Fatal \<Rightarrow> Exited
                    | Crash \<Rightarrow> Panicked
                    | Ok st' \<Rightarrow> handleIncoming js rest st'))))"

section \<open>Registry invariant\<close>

text \<open>
  Nicknames are unique across the registry: the list \<open>conversations\<close> holds no two
  conversations with the same nickname, and \<open>conversationsByNickname\<close> maps exactly the
  nicknames of the list, each to its conversation.
\<close>

definition nicknamesUnique :: "registry \<Rightarrow> bool" where
  "nicknamesUnique r \<longleftrightarrow>
     distinct (map conv_Nickname (conversations r))
     \<and> (\<forall>c \<in> set (conversations r). conversationsByNickname r (conv_Nickname c) = Some c)
     \<and> (\<forall>n. conversationsByNickname r n \<noteq> None \<longrightarrow> n \<in> conv_Nickname ` set (conversations r))"

text \<open>The number a string of decimal digits denotes.\<close>

definition decimalValue :: "string \<Rightarrow> nat" where
  "decimalValue s = foldl (\<lambda>a c. 10 * a + (of_char c - 48)) 0 s"

section \<open>A sample instance of the JSON parameter\<close>

text \<open>
  To run the model on concrete byte streams, \<open>sampleJSON\<close> gives what
  \<open>encoding/json\<close> computes on the documents used below, and reports an error on every
  other input. Leading and trailing white space around a document is ignored, as
  \<open>json.Unmarshal\<close> does. The encoder of responses concatenates the fields in the
  order of the struct, which is the output of \<open>json.Marshal\<close> for strings that need
  no escaping.
\<close>

definition trim :: "bytes \<Rightarrow> bytes" where
  "trim b = (let ws = (\<lambda>c. c = CR \<or> c = LF \<or> c = CHR '' '' \<or> c = CHR 0x09)
             in rev (dropWhile ws (rev (dropWhile ws b))))"

definition idGeneral :: UUID where "idGeneral = 1"
definition idBob :: UUID where "idBob = 7"

definition docGhost :: bytes where
  \<open>docGhost = ''{"nickname":"ghost"}''\<close>
definition docGeneral :: bytes where
  \<open>docGeneral = ''{"nickname":"general"}''\<close>
definition docAnonymous :: bytes where
  \<open>docAnonymous = ''{"nickname":""}''\<close>
definition docAnn :: bytes where
  \<open>docAnn = ''{"name":"ann"}''\<close>
definition docBob :: bytes where
  \<open>docBob = ''{"id":"00000000-0000-0000-0000-000000000007","name":"bob"}''\<close>
definition docGeneralFull :: bytes where
  \<open>docGeneralFull = ''{"id":"00000000-0000-0000-0000-000000000001","nickname":"general"}''\<close>
definition docHello :: bytes where
  \<open>docHello = ''{"conversation":'' @ docGeneralFull @ '',"sender":'' @ docBob @ '',"text":"hi"}''\<close>

definition general :: Conversation where
  "general = \<lparr>conv_ID = idGeneral, conv_Nickname = ''general''\<rparr>"
definition bob :: Sender where
  "bob = \<lparr>sender_ID = idBob, sender_Name = ''bob''\<rparr>"
definition hello :: Message where
  "hello = \<lparr>msg_Conversation = Some general, msg_Sender = Some bob, msg_Text = ''hi''\<rparr>"

definition frame :: "string \<Rightarrow> bytes \<Rightarrow> bytes" where
  \<open>frame t doc = ''{"type":"'' @ t @ ''","message":'' @ doc @ ''}''\<close>

definition sampleOperation :: "bytes \<Rightarrow> Operation option" where
  "sampleOperation b =
     (let d = trim b in
      if d = frame ''subscribe'' docGhost
        then Some \<lparr>op_Type = ''subscribe'', op_Message = Some docGhost\<rparr>
      else if d = frame ''subscribe'' docGeneral
        then Some \<lparr>op_Type = ''subscribe'', op_Message = Some docGeneral\<rparr>
      else if d = frame ''create'' docGeneral
        then Some \<lparr>op_Type = ''create'', op_Message = Some docGeneral\<rparr>
      else if d = frame ''create'' docAnonymous
        then Some \<lparr>op_Type = ''create'', op_Message = Some docAnonymous\<rparr>
      else if d = frame ''list'' emptyJSON
        then Some \<lparr>op_Type = ''list'', op_Message = Some emptyJSON\<rparr>
      else if d = frame ''message'' docHello
        then Some \<lparr>op_Type = ''message'', op_Message = Some docHello\<rparr>
      else if d = frame ''aboutme'' docAnn
        then Some \<lparr>op_Type = ''aboutme'', op_Message = Some docAnn\<rparr>
      else if d = frame ''aboutme'' docBob
        then Some \<lparr>op_Type = ''aboutme'', op_Message = Some docBob\<rparr>
      else None)"

definition sampleConversation :: "bytes \<Rightarrow> Conversation option" where
  "sampleConversation b =
     (let d = trim b in
      if d = docGhost then Some \<lparr>conv_ID = 0, conv_Nickname = ''ghost''\<rparr>
      else if d = docGeneral then Some \<lparr>conv_ID = 0, conv_Nickname = ''general''\<rparr>
      else if d = docAnonymous then Some \<lparr>conv_ID = 0, conv_Nickname = []\<rparr>
      else if d = docGeneralFull then Some general
      else None)"

definition sampleMessage :: "bytes \<Rightarrow> Message option" where
  "sampleMessage b = (if trim b = docHello then Some hello else None)"

definition sampleClientAboutMe :: "bytes \<Rightarrow> (UUID option \<times> string option) option" where
  "sampleClientAboutMe b =
     (let d = trim b in
      if d = docAnn then Some (None, Some ''ann'')
      else if d = docBob then Some (Some idBob, Some ''bob'')
      else None)"

definition encodeResponse :: "Response \<Rightarrow> bytes" where
  \<open>encodeResponse r =
     ''{"status":"'' @ resp_Status r @ ''","operation_type":"'' @ resp_OperationType r
     @ ''","error":''
     @ (case resp_Error r of None \<Rightarrow> ''null''
        | Some e \<Rightarrow> ''{"message":"'' @ err_Message e @ ''"}'')
     @ '',"message":''
     @ (case resp_Message r of None \<Rightarrow> ''null'' | Some m \<Rightarrow> m)
     @ ''}''\<close>

definition sampleResponse :: "bytes \<Rightarrow> Response option" where
  "sampleResponse b =
     (let d = trim b in
      if d = encodeResponse (okResponse docHello MessageOperationType)
        then Some (okResponse docHello MessageOperationType)
      else if d = encodeResponse (okResponse emptyJSON CreateOperationType)
        then Some (okResponse emptyJSON CreateOperationType)
      else None)"

definition sampleConversations :: "bytes \<Rightarrow> Conversation list \<Rightarrow> Conversation list option" where
  "sampleConversations b old =
     (let d = trim b in
      if d = ''[]'' then Some []
      else if d = ''['' @ docGeneralFull @ '']'' then Some [general]
      else None)"

definition sampleJSON :: json where
  "sampleJSON =
     \<lparr>Unmarshal_Operation = sampleOperation,
      Unmarshal_Conversation = sampleConversation,
      Unmarshal_Message = sampleMessage,
      Unmarshal_ClientAboutMe = sampleClientAboutMe,
      Unmarshal_Response = sampleResponse,
      Unmarshal_Conversations = sampleConversations,
      Marshal_Operation = (\<lambda>v. case op_Message v of
                                   None \<Rightarrow> Inr (frame (op_Type v) ''null'')
                                 | Some m \<Rightarrow> Inr (frame (op_Type v) m)),
      Marshal_Response = (\<lambda>r. Inr (encodeResponse r)),
      Marshal_Message = (\<lambda>m. if m = hello then Inr docHello
                               else Inl ''json: unsupported value''),
      Marshal_ClientAboutMe = (\<lambda>a. if a = bob then Inr docBob
                                     else Inl ''json: unsupported value''),
      Marshal_Conversations = (\<lambda>cs. if cs = [] then Inr ''[]''
                                      else if cs = [general] then Inr (''['' @ docGeneralFull @ '']'')
                                      else Inl ''json: unsupported value'')\<rparr>"

text \<open>A registry that holds two conversations.\<close>

definition twoConversations :: registry where
  "twoConversations =
     \<lparr>conversationIDs = [5 \<mapsto> True, 6 \<mapsto> True],
      conversations = [\<lparr>conv_ID = 5, conv_Nickname = ''a''\<rparr>, \<lparr>conv_ID = 6, conv_Nickname = ''b''\<rparr>],
      conversationsByNickname = [''a'' \<mapsto> \<lparr>conv_ID = 5, conv_Nickname = ''a''\<rparr>,
                                 ''b'' \<mapsto> \<lparr>conv_ID = 6, conv_Nickname = ''b''\<rparr>]\<rparr>"


text \<open>Sample values for the successive results of \<open>uuid.New()\<close>, and sample input streams.\<close>

definition sampleIDs :: "nat \<Rightarrow> UUID" where
  "sampleIDs n = of_nat n + 100"

definition ghostThenList :: reader where
  "ghostThenList = \<lparr>buffered = [],
     pending = [frame ''subscribe'' docGhost @ EOFBytes, frame ''list'' emptyJSON @ EOFBytes]\<rparr>"

definition freshSession :: "reader \<Rightarrow> session" where
  "freshSession r = \<lparr>connReader = r, sess_conn = \<lparr>written = [], closed = False\<rparr>,
                      listenOn = Map.empty\<rparr>"

definition bobStream :: reader where
  "bobStream = \<lparr>buffered = [],
     pending = [frame ''aboutme'' docBob @ EOFBytes, frame ''create'' docGeneral @ EOFBytes,
                frame ''subscribe'' docGeneral @ EOFBytes, frame ''message'' docHello @ EOFBytes]\<rparr>"

definition listenerStream :: reader where
  "listenerStream = \<lparr>buffered = [],
     pending = [frame ''aboutme'' docBob @ EOFBytes, frame ''subscribe'' docGeneral @ EOFBytes]\<rparr>"

text \<open>
  Two clients connect; the first creates the conversation \<open>general\<close> and subscribes to
  it, the second subscribes to it as well.
\<close>

definition twoSubscribers :: "event list" where
  "twoSubscribers = [Accept bobStream 100, Serve 0 idGeneral 0, Serve 0 101 0,
                     Accept listenerStream 102, Serve 1 103 0]"

text \<open>The acknowledgement of a message operation, and the frame that delivers \<open>hello\<close>.\<close>

definition ackFrame :: bytes where
  "ackFrame = encodeResponse (okResponse emptyJSON MessageOperationType) @ EOFBytes"

definition helloFrame :: bytes where
  "helloFrame = encodeResponse (okResponse docHello MessageOperationType) @ EOFBytes"

text \<open>One client connects, creates \<open>general\<close>, subscribes to it and publishes \<open>hello\<close>.\<close>

definition publishToSelf :: "event list" where
  "publishToSelf = [Accept bobStream 100, Serve 0 idGeneral 0, Serve 0 101 0, Serve 0 104 0]"
section \<open>Properties of the frame reader\<close>

lemma fillUntil_found:
  "d \<in> set (buf @ concat cs) \<Longrightarrow>
     fst (fillUntil d buf cs) = (takeWhile (\<lambda>c. c \<noteq> d) (buf @ concat cs) @ [d], None)
   \<and> remaining (snd (fillUntil d buf cs)) = tl (dropWhile (\<lambda>c. c \<noteq> d) (buf @ concat cs))"
proof (induction cs arbitrary: buf)
  case Nil
  then show ?case by (simp add: remaining_def)
next
  case (Cons c cs)
  show ?case
  proof (cases "d \<in> set buf")
    case True
    then show ?thesis
      by (simp add: remaining_def)
  next
    case False
    with Cons.prems have "d \<in> set ((buf @ c) @ concat cs)" by auto
    from Cons.IH [OF this] False show ?thesis by simp
  qed
qed

lemma fillUntil_eof:
  "d \<notin> set (buf @ concat cs) \<Longrightarrow>
     fillUntil d buf cs = ((buf @ concat cs, Some EOF), \<lparr>buffered = [], pending = []\<rparr>)"
  by (induction cs arbitrary: buf) auto

lemma ReadBytes_found:
  assumes "remaining r = u @ d # v" "d \<notin> set u"
  shows "\<exists>r'. ReadBytes d r = ((u @ [d], None), r') \<and> remaining r' = v"
proof -
  have in_set: "d \<in> set (buffered r @ concat (pending r))"
    using assms by (simp add: remaining_def)
  have tw: "takeWhile (\<lambda>c. c \<noteq> d) (u @ d # v) = u"
    using assms(2) by (induction u) auto
  have dw: "dropWhile (\<lambda>c. c \<noteq> d) (u @ d # v) = d # v"
    using assms(2) by (induction u) auto
  from fillUntil_found [OF in_set] assms(1) tw dw
  have "fst (ReadBytes d r) = (u @ [d], None)" "remaining (snd (ReadBytes d r)) = v"
    by (simp_all add: ReadBytes_def remaining_def)
  then show ?thesis by (cases "ReadBytes d r") auto
qed

lemma ReadBytes_eof:
  "d \<notin> set (remaining r) \<Longrightarrow>
     ReadBytes d r = ((remaining r, Some EOF), \<lparr>buffered = [], pending = []\<rparr>)"
  unfolding ReadBytes_def remaining_def by (rule fillUntil_eof)

lemma CR_neq_LF: "CR \<noteq> LF"
  by (simp add: CR_def LF_def)

lemma drop_suffix_sublist:
  assumes "length xs > length d" "drop (length xs - length d) xs = d"
  shows "sublist d (xs @ ys)"
proof -
  have "xs = take (length xs - length d) xs @ d"
    using assms(2) append_take_drop_id [of "length xs - length d" xs] by simp
  then have "xs @ ys = take (length xs - length d) xs @ d @ ys" by simp
  then show ?thesis unfolding sublist_def by blast
qed

lemma ReadUntil_loop_stop:
  "ReadBytes (last delim) r = ((b, None), r') \<Longrightarrow>
   length (acc @ b) > length delim \<Longrightarrow>
   drop (length (acc @ b) - length delim) (acc @ b) = delim \<Longrightarrow>
   ReadUntil_loop delim acc r = ((acc @ b, None), r')"
  by (subst ReadUntil_loop.simps) (simp add: Let_def)

lemma ReadUntil_loop_continue:
  "ReadBytes (last delim) r = ((b, None), r') \<Longrightarrow>
   \<not> (length (acc @ b) > length delim
      \<and> drop (length (acc @ b) - length delim) (acc @ b) = delim) \<Longrightarrow>
   ReadUntil_loop delim acc r = ReadUntil_loop delim (acc @ b) r'"
  by (subst ReadUntil_loop.simps) (auto simp: Let_def)

lemma ReadUntil_loop_error:
  "ReadBytes (last delim) r = ((b, Some e), r') \<Longrightarrow>
   ReadUntil_loop delim acc r = ((acc, None), r')"
  by (subst ReadUntil_loop.simps) simp

lemma ReadUntil_loop_frame:
  assumes "remaining r = s @ CR # LF # rest"
    and "\<not> sublist [CR, LF] (acc @ s)"
    and "acc @ s \<noteq> []"
  shows "\<exists>r'. ReadUntil_loop [CR, LF] acc r = ((acc @ s @ [CR, LF], None), r')
             \<and> remaining r' = rest"
  using assms
proof (induction "length s" arbitrary: s acc r rule: less_induct)
  case less
  show ?case
  proof (cases "LF \<in> set s")
    case False
    then have notin: "LF \<notin> set (s @ [CR])" using CR_neq_LF by auto
    have rem: "remaining r = (s @ [CR]) @ LF # rest" using less.prems(1) by simp
    from ReadBytes_found [OF rem notin]
    obtain r' where rb: "ReadBytes LF r = (((s @ [CR]) @ [LF], None), r')"
      and r': "remaining r' = rest" by blast
    have len: "length (acc @ (s @ [CR]) @ [LF]) > length [CR, LF]" using less.prems(3)
      by (cases "acc @ s") auto
    have "ReadUntil_loop [CR, LF] acc r = ((acc @ (s @ [CR]) @ [LF], None), r')"
      using rb len by (intro ReadUntil_loop_stop) simp_all
    then have "ReadUntil_loop [CR, LF] acc r = ((acc @ s @ [CR, LF], None), r')" by simp
    with r' show ?thesis by blast
  next
    case True
    then obtain u v where s: "s = u @ LF # v" and u: "LF \<notin> set u"
      by (meson split_list_first)
    have rem: "remaining r = u @ LF # (v @ CR # LF # rest)"
      using less.prems(1) s by simp
    from ReadBytes_found [OF rem u]
    obtain r1 where rb: "ReadBytes LF r = ((u @ [LF], None), r1)"
      and r1: "remaining r1 = v @ CR # LF # rest" by blast
    let ?acc' = "acc @ u @ [LF]"
    have eq: "?acc' @ v = acc @ s" using s by simp
    have nostop: "\<not> (length ?acc' > length [CR, LF]
              \<and> drop (length ?acc' - length [CR, LF]) ?acc' = [CR, LF])"
    proof
      assume a: "length ?acc' > length [CR, LF]
              \<and> drop (length ?acc' - length [CR, LF]) ?acc' = [CR, LF]"
      then have "sublist [CR, LF] (?acc' @ v)"
        using drop_suffix_sublist [of "[CR, LF]" ?acc' v] by blast
      with eq less.prems(2) show False by simp
    qed
    have step: "ReadUntil_loop [CR, LF] acc r = ReadUntil_loop [CR, LF] ?acc' r1"
      using rb nostop by (intro ReadUntil_loop_continue) simp_all
    have shorter: "length v < length s" using s by simp
    have p2: "\<not> sublist [CR, LF] (?acc' @ v)" using eq less.prems(2) by simp
    have p3: "?acc' @ v \<noteq> []" by simp
    from less.hyps [OF shorter r1 p2 p3]
    obtain r' where "ReadUntil_loop [CR, LF] ?acc' r1 = ((?acc' @ v @ [CR, LF], None), r')"
      and "remaining r' = rest" by blast
    with step s show ?thesis by simp
  qed
qed


text \<open>
  Claim C1, as the code has it. For every non-empty payload that does not contain the
  two-byte terminator, and every reader whose remaining input (whatever is buffered and
  however the transport chunks the rest) starts with the payload followed by the
  terminator, \<open>ReadUntil\<close> with delimiter CR LF returns the payload bytes followed by
  the terminator, with a nil error, and leaves exactly the input after the terminator
  unread. The terminator is part of the returned bytes.
\<close>

theorem ReadUntil_returns_frame:
  assumes "payload \<noteq> []"
    and "\<not> sublist EOFBytes payload"
    and "remaining r = payload @ EOFBytes @ rest"
  shows "\<exists>r'. ReadUntil r EOFBytes = Returns ((payload @ EOFBytes, None), r')
             \<and> remaining r' = rest"
proof -
  have "remaining r = payload @ CR # LF # rest"
    using assms(3) by (simp add: EOFBytes_def)
  moreover have "\<not> sublist [CR, LF] ([] @ payload)"
    using assms(2) by (simp add: EOFBytes_def)
  moreover have "[] @ payload \<noteq> []" using assms(1) by simp
  ultimately obtain r' where
    "ReadUntil_loop [CR, LF] [] r = (([] @ payload @ [CR, LF], None), r')"
    "remaining r' = rest"
    using ReadUntil_loop_frame [of r payload rest "[]"] by blast
  then show ?thesis by (simp add: ReadUntil_def EOFBytes_def)
qed

theorem ReadUntil_returns_frame_witness:
  "''ab'' \<noteq> [] \<and> \<not> sublist EOFBytes ''ab''
   \<and> remaining \<lparr>buffered = [], pending = [''a'', ''b'' @ [CR], LF # ''xy'']\<rparr>
       = ''ab'' @ EOFBytes @ ''xy''
   \<and> (\<exists>r'. ReadUntil \<lparr>buffered = [], pending = [''a'', ''b'' @ [CR], LF # ''xy'']\<rparr> EOFBytes
              = Returns ((''ab'' @ EOFBytes, None), r')
          \<and> remaining r' = ''xy'')"
proof -
  have h1: "''ab'' \<noteq> []" by simp
  have h2: "\<not> sublist EOFBytes ''ab''"
    by (simp add: EOFBytes_def CR_def LF_def sublist_Cons_right)
  have h3: "remaining \<lparr>buffered = [], pending = [''a'', ''b'' @ [CR], LF # ''xy'']\<rparr>
       = ''ab'' @ EOFBytes @ ''xy''"
    by (simp add: remaining_def EOFBytes_def)
  from ReadUntil_returns_frame [OF h1 h2 h3] h1 h2 h3 show ?thesis by blast
qed

text \<open>
  The claim as stated fails: for the payload \<open>a\<close>, delivered in a single chunk, the
  returned bytes are \<open>a CR LF\<close>, not \<open>a\<close>.
\<close>

theorem ReadUntil_keeps_terminator:
  "\<not> sublist EOFBytes ''a''
   \<and> ReadUntil \<lparr>buffered = [], pending = [''a'' @ EOFBytes]\<rparr> EOFBytes
       = Returns ((''a'' @ EOFBytes, None), \<lparr>buffered = [], pending = []\<rparr>)
   \<and> ''a'' @ EOFBytes \<noteq> ''a''"
  by (simp add: EOFBytes_def CR_def LF_def sublist_Cons_right ReadUntil_def
      ReadUntil_loop.simps ReadBytes_def)

text \<open>
  Claim C6 at its failing inputs. A terminator that arrives with no payload before it
  does not end the read, because the length test is strict: when another frame
  follows, its bytes are appended and both are returned as one result; when the stream
  ends instead, the two terminator bytes are returned with a nil error. A stream that
  has already ended yields the empty byte sequence, also with a nil error.
\<close>

theorem ReadUntil_empty_frame:
  "ReadUntil \<lparr>buffered = [], pending = [EOFBytes, ''x'' @ EOFBytes]\<rparr> EOFBytes
       = Returns ((EOFBytes @ ''x'' @ EOFBytes, None), \<lparr>buffered = [], pending = []\<rparr>)
   \<and> ReadUntil \<lparr>buffered = [], pending = [EOFBytes]\<rparr> EOFBytes
       = Returns ((EOFBytes, None), \<lparr>buffered = [], pending = []\<rparr>)
   \<and> ReadUntil \<lparr>buffered = [], pending = []\<rparr> EOFBytes
       = Returns (([], None), \<lparr>buffered = [], pending = []\<rparr>)"
  by (simp add: EOFBytes_def CR_def LF_def ReadUntil_def
      ReadUntil_loop.simps ReadBytes_def)


section \<open>Properties of the registry\<close>

lemma digit_value: "d < 10 \<Longrightarrow> of_char (digit d) - 48 = d"
proof -
  assume "d < 10"
  then have "d \<in> {0,1,2,3,4,5,6,7,8,9}" by auto
  then show ?thesis by (auto simp: digit_def)
qed

lemma decimalValue_snoc:
  "decimalValue (s @ [c]) = 10 * decimalValue s + (of_char c - 48)"
  by (simp add: decimalValue_def)

lemma decimalValue_FormatUint: "decimalValue (FormatUint n) = n"
proof (induction n rule: FormatUint.induct)
  case (1 n)
  show ?case
  proof (cases "n < 10")
    case True
    then show ?thesis
      by (subst FormatUint.simps) (simp add: decimalValue_def digit_value)
  next
    case False
    then have "decimalValue (FormatUint (n div 10)) = n div 10" using 1 by simp
    moreover have "n mod 10 < 10" by simp
    ultimately show ?thesis using False
      by (subst FormatUint.simps) (simp add: decimalValue_snoc digit_value)
  qed
qed

lemma create_fresh:
  assumes "op_Message op = Some m" "Unmarshal_Conversation js m = Some c"
    and "conv_Nickname c \<noteq> []" "conversationsByNickname r (conv_Nickname c) = None"
  shows "handleCreateConversation js op newid r =
           Returns (None,
             \<lparr>conversationIDs = (conversationIDs r)(newid \<mapsto> True),
              conversations = conversations r @ [c\<lparr>conv_ID := newid\<rparr>],
              conversationsByNickname =
                (conversationsByNickname r)(conv_Nickname c \<mapsto> c\<lparr>conv_ID := newid\<rparr>)\<rparr>)"
  using assms by (simp add: handleCreateConversation_def Let_def)

lemma create_duplicate:
  assumes "op_Message op = Some m" "Unmarshal_Conversation js m = Some c"
    and "conv_Nickname c \<noteq> []" "conversationsByNickname r (conv_Nickname c) \<noteq> None"
  shows "handleCreateConversation js op newid r =
           Returns (Some (alreadyExists (conv_Nickname c)), r)"
  using assms by (auto simp: handleCreateConversation_def Let_def)

lemma create_preserves_unique:
  assumes "nicknamesUnique r" "handleCreateConversation js op newid r = Returns (e, r')"
  shows "nicknamesUnique r'"
proof (cases "r' = r")
  case True
  with assms(1) show ?thesis by simp
next
  case False
  with assms(2) obtain c where r': "r' = \<lparr>conversationIDs = (conversationIDs r)(conv_ID c \<mapsto> True),
        conversations = conversations r @ [c],
        conversationsByNickname = (conversationsByNickname r)(conv_Nickname c \<mapsto> c)\<rparr>"
    and fresh: "conversationsByNickname r (conv_Nickname c) = None"
    by (auto simp: handleCreateConversation_def Let_def split: option.splits if_splits)
  have notin: "conv_Nickname c \<notin> conv_Nickname ` set (conversations r)"
    using assms(1) fresh by (auto simp: nicknamesUnique_def)
  show ?thesis
    using assms(1) notin unfolding nicknamesUnique_def r' by auto
qed


text \<open>
  Claim C4, as the code has it. For every non-empty nickname \<open>n\<close> and every registry
  with unique nicknames that does not contain \<open>n\<close>, two successive create operations
  whose payloads carry the nickname \<open>n\<close> give one success and then one error, whose
  message says that the nickname already exists; afterwards exactly one conversation of
  the registry has nickname \<open>n\<close>. Every create keeps the nicknames unique.
\<close>

theorem create_twice:
  assumes "nicknamesUnique r"
    and "n \<noteq> []"
    and "conversationsByNickname r n = None"
    and "op_Message op1 = Some m1" "Unmarshal_Conversation js m1 = Some c1" "conv_Nickname c1 = n"
    and "op_Message op2 = Some m2" "Unmarshal_Conversation js m2 = Some c2" "conv_Nickname c2 = n"
  shows "\<exists>r1. handleCreateConversation js op1 id1 r = Returns (None, r1)
            \<and> handleCreateConversation js op2 id2 r1 = Returns (Some (alreadyExists n), r1)
            \<and> sublist ''already exists'' (alreadyExists n)
            \<and> length (filter (\<lambda>c. conv_Nickname c = n) (conversations r1)) = 1
            \<and> nicknamesUnique r1
            \<and> (\<forall>op newid e r'. handleCreateConversation js op newid r = Returns (e, r')
                   \<longrightarrow> nicknamesUnique r')"
proof -
  let ?r1 = "\<lparr>conversationIDs = (conversationIDs r)(id1 \<mapsto> True),
              conversations = conversations r @ [c1\<lparr>conv_ID := id1\<rparr>],
              conversationsByNickname =
                (conversationsByNickname r)(conv_Nickname c1 \<mapsto> c1\<lparr>conv_ID := id1\<rparr>)\<rparr>"
  have first: "handleCreateConversation js op1 id1 r = Returns (None, ?r1)"
    using assms by (intro create_fresh) simp_all
  have "conversationsByNickname ?r1 (conv_Nickname c2) \<noteq> None"
    using assms by simp
  then have second: "handleCreateConversation js op2 id2 ?r1
      = Returns (Some (alreadyExists (conv_Nickname c2)), ?r1)"
    using assms by (intro create_duplicate) simp_all
  have absent: "filter (\<lambda>c. conv_Nickname c = n) (conversations r) = []"
  proof (rule ccontr)
    assume "filter (\<lambda>c. conv_Nickname c = n) (conversations r) \<noteq> []"
    then obtain c where "c \<in> set (conversations r)" "conv_Nickname c = n"
      by (metis (mono_tags, lifting) filter_False)
    with assms(1) have "conversationsByNickname r n = Some c"
      by (auto simp: nicknamesUnique_def)
    with assms(3) show False by simp
  qed
  have once: "length (filter (\<lambda>c. conv_Nickname c = n) (conversations ?r1)) = 1"
    using absent assms(6) by simp
  have msg: "sublist ''already exists'' (alreadyExists n)"
    unfolding alreadyExists_def sublist_def
    by (rule exI [of _ "''conversation with nickname '' @ [quote] @ n @ [quote] @ '' ''"],
        rule exI [of _ "[]"]) simp
  have inv: "nicknamesUnique ?r1"
    using create_preserves_unique [OF assms(1) first] .
  have every: "\<forall>op newid e r'. handleCreateConversation js op newid r = Returns (e, r')
                   \<longrightarrow> nicknamesUnique r'"
    using create_preserves_unique [OF assms(1)] by blast
  from first second once msg inv every assms(9) show ?thesis by auto
qed


lemma nicknamesUnique_empty: "nicknamesUnique emptyRegistry"
  by (simp add: nicknamesUnique_def emptyRegistry_def)

lemma sample_general: "Unmarshal_Conversation sampleJSON docGeneral = Some \<lparr>conv_ID = 0, conv_Nickname = ''general''\<rparr>"
  by (simp add: sampleJSON_def sampleConversation_def trim_def docGeneral_def docGhost_def
      CR_def LF_def)

theorem create_twice_witness:
  "nicknamesUnique emptyRegistry \<and> ''general'' \<noteq> []
   \<and> conversationsByNickname emptyRegistry ''general'' = None
   \<and> (\<exists>r1. handleCreateConversation sampleJSON
                 \<lparr>op_Type = ''create'', op_Message = Some docGeneral\<rparr> 1 emptyRegistry
               = Returns (None, r1)
           \<and> handleCreateConversation sampleJSON
                 \<lparr>op_Type = ''create'', op_Message = Some docGeneral\<rparr> 2 r1
               = Returns (Some (alreadyExists ''general''), r1)
           \<and> length (filter (\<lambda>c. conv_Nickname c = ''general'') (conversations r1)) = 1
           \<and> nicknamesUnique r1)"
proof -
  have h3: "conversationsByNickname emptyRegistry ''general'' = None"
    by (simp add: emptyRegistry_def)
  have h4: "op_Message \<lparr>op_Type = ''create'', op_Message = Some docGeneral\<rparr> = Some docGeneral"
    by simp
  have h6: "conv_Nickname \<lparr>conv_ID = 0, conv_Nickname = ''general''\<rparr> = ''general''" by simp
  have h2: "''general'' \<noteq> []" by simp
  from create_twice [OF nicknamesUnique_empty h2 h3 h4 sample_general h6 h4 sample_general h6,
      of 1 2]
  show ?thesis using nicknamesUnique_empty h3 by blast
qed

text \<open>
  The claim as stated, for every nickname, fails at the empty nickname: it is replaced
  by the registry size, so two creates with the empty nickname both succeed (as
  \<open>0\<close> and \<open>1\<close>), no error is returned and no conversation has the empty nickname.
\<close>

theorem create_twice_empty_nickname:
  "conversationsByNickname emptyRegistry [] = None
   \<and> (case handleCreateConversation sampleJSON
            \<lparr>op_Type = ''create'', op_Message = Some docAnonymous\<rparr> 1 emptyRegistry of
         Panic \<Rightarrow> False
       | Returns (e1, r1) \<Rightarrow>
           e1 = None
           \<and> (case handleCreateConversation sampleJSON
                    \<lparr>op_Type = ''create'', op_Message = Some docAnonymous\<rparr> 2 r1 of
                 Panic \<Rightarrow> False
               | Returns (e2, r2) \<Rightarrow>
                   e2 = None
                   \<and> map conv_Nickname (conversations r2) = [''0'', ''1'']
                   \<and> filter (\<lambda>c. conv_Nickname c = []) (conversations r2) = []))"
  by (simp add: handleCreateConversation_def sampleJSON_def sampleConversation_def trim_def
      docGeneral_def docGhost_def docAnonymous_def CR_def LF_def emptyRegistry_def
      Itoa_def FormatUint.simps digit_def Let_def)

text \<open>
  Claim C5. A create operation whose payload carries the empty nickname uses the
  decimal string of the current length of \<open>conversations\<close> as the nickname: the
  conversation is stored under it, or the create is rejected because that nickname
  exists. With exactly 2 conversations in the registry the nickname is \<open>2\<close>.
\<close>

theorem create_empty_nickname:
  assumes "op_Message op = Some m"
    and "Unmarshal_Conversation js m = Some c"
    and "conv_Nickname c = []"
  shows "handleCreateConversation js op newid r =
           (let nickname = Itoa (int (length (conversations r)));
                conversation = \<lparr>conv_ID = newid, conv_Nickname = nickname\<rparr>
            in if conversationsByNickname r nickname \<noteq> None
               then Returns (Some (alreadyExists nickname), r)
               else Returns (None,
                      \<lparr>conversationIDs = (conversationIDs r)(newid \<mapsto> True),
                       conversations = conversations r @ [conversation],
                       conversationsByNickname =
                         (conversationsByNickname r)(nickname \<mapsto> conversation)\<rparr>))
         \<and> decimalValue (Itoa (int (length (conversations r)))) = length (conversations r)
         \<and> (length (conversations r) = 2 \<longrightarrow> Itoa (int (length (conversations r))) = ''2'')"
proof -
  have a: "handleCreateConversation js op newid r =
           (let nickname = Itoa (int (length (conversations r)));
                conversation = \<lparr>conv_ID = newid, conv_Nickname = nickname\<rparr>
            in if conversationsByNickname r nickname \<noteq> None
               then Returns (Some (alreadyExists nickname), r)
               else Returns (None,
                      \<lparr>conversationIDs = (conversationIDs r)(newid \<mapsto> True),
                       conversations = conversations r @ [conversation],
                       conversationsByNickname =
                         (conversationsByNickname r)(nickname \<mapsto> conversation)\<rparr>))"
    using assms by (cases c) (simp add: handleCreateConversation_def Let_def)
  have b: "decimalValue (Itoa (int (length (conversations r)))) = length (conversations r)"
    by (simp add: Itoa_def decimalValue_FormatUint)
  have c: "length (conversations r) = 2 \<longrightarrow> Itoa (int (length (conversations r))) = ''2''"
    by (simp add: Itoa_def FormatUint.simps digit_def)
  from a b c show ?thesis by blast
qed


lemma sample_anonymous:
  "Unmarshal_Conversation sampleJSON docAnonymous = Some \<lparr>conv_ID = 0, conv_Nickname = []\<rparr>"
  by (simp add: sampleJSON_def sampleConversation_def trim_def docGeneral_def docGhost_def
      docAnonymous_def CR_def LF_def)

theorem create_empty_nickname_witness:
  "length (conversations twoConversations) = 2
   \<and> handleCreateConversation sampleJSON
        \<lparr>op_Type = ''create'', op_Message = Some docAnonymous\<rparr> 9 twoConversations
     = Returns (None,
         \<lparr>conversationIDs = (conversationIDs twoConversations)(9 \<mapsto> True),
          conversations = conversations twoConversations @ [\<lparr>conv_ID = 9, conv_Nickname = ''2''\<rparr>],
          conversationsByNickname =
            (conversationsByNickname twoConversations)(''2'' \<mapsto> \<lparr>conv_ID = 9, conv_Nickname = ''2''\<rparr>)\<rparr>)"
proof -
  have h1: "op_Message \<lparr>op_Type = ''create'', op_Message = Some docAnonymous\<rparr> = Some docAnonymous"
    by simp
  have h3: "conv_Nickname \<lparr>conv_ID = 0, conv_Nickname = []\<rparr> = []" by simp
  have len: "length (conversations twoConversations) = 2" by (simp add: twoConversations_def)
  have free: "conversationsByNickname twoConversations ''2'' = None"
    by (simp add: twoConversations_def)
  from create_empty_nickname [OF h1 sample_anonymous h3, of 9 twoConversations] len
  have two: "Itoa (int (length (conversations twoConversations))) = ''2''"
    and res: "handleCreateConversation sampleJSON
        \<lparr>op_Type = ''create'', op_Message = Some docAnonymous\<rparr> 9 twoConversations =
           (let nickname = Itoa (int (length (conversations twoConversations)));
                conversation = \<lparr>conv_ID = 9, conv_Nickname = nickname\<rparr>
            in if conversationsByNickname twoConversations nickname \<noteq> None
               then Returns (Some (alreadyExists nickname), twoConversations)
               else Returns (None,
                      \<lparr>conversationIDs = (conversationIDs twoConversations)(9 \<mapsto> True),
                       conversations = conversations twoConversations @ [conversation],
                       conversationsByNickname =
                         (conversationsByNickname twoConversations)(nickname \<mapsto> conversation)\<rparr>))"
    by blast+
  show ?thesis using len res free unfolding two Let_def by simp
qed

section \<open>Properties of the handshake and of the frame writers\<close>

text \<open>
  Claim C10. When the handshake payload parses, the identity \<open>ParseClientAboutMe\<close>
  returns carries the identifier generated by the server if the payload has no id
  field, and the identifier of the payload if it has one.
\<close>

theorem ParseClientAboutMe_id:
  assumes "Unmarshal_ClientAboutMe js b = Some (docID, docName)"
  shows "\<exists>aboutClient. ParseClientAboutMe js newid b = Inr aboutClient
           \<and> (docID = None \<longrightarrow> sender_ID aboutClient = newid)
           \<and> (\<forall>i. docID = Some i \<longrightarrow> sender_ID aboutClient = i)"
  using assms by (auto simp: ParseClientAboutMe_def Let_def)

theorem ParseClientAboutMe_id_witness:
  "Unmarshal_ClientAboutMe sampleJSON docAnn = Some (None, Some ''ann'')
   \<and> Unmarshal_ClientAboutMe sampleJSON docBob = Some (Some idBob, Some ''bob'')
   \<and> (\<exists>a. ParseClientAboutMe sampleJSON 42 docAnn = Inr a \<and> sender_ID a = 42)
   \<and> (\<exists>a. ParseClientAboutMe sampleJSON 42 docBob = Inr a \<and> sender_ID a = idBob)"
proof -
  have ann: "Unmarshal_ClientAboutMe sampleJSON docAnn = Some (None, Some ''ann'')"
    by (simp add: sampleJSON_def sampleClientAboutMe_def trim_def docAnn_def CR_def LF_def)
  have bob: "Unmarshal_ClientAboutMe sampleJSON docBob = Some (Some idBob, Some ''bob'')"
    by (simp add: sampleJSON_def sampleClientAboutMe_def trim_def docAnn_def docBob_def
        CR_def LF_def)
  from ParseClientAboutMe_id [OF ann, of 42] ParseClientAboutMe_id [OF bob, of 42] ann bob
  show ?thesis by auto
qed

text \<open>
  Claim C8 at its failing input. The client's \<open>writeJSONTo\<close> writes the serialized
  operation and the terminator, and then the terminator a second time.
\<close>

theorem writeJSONTo_two_terminators:
  "writeJSONTo sampleJSON \<lparr>written = [], closed = False\<rparr>
       \<lparr>op_Type = ''list'', op_Message = Some emptyJSON\<rparr>
     = (None, \<lparr>written = frame ''list'' emptyJSON @ EOFBytes @ EOFBytes, closed = False\<rparr>)"
  by (simp add: writeJSONTo_def sampleJSON_def Write_def)

text \<open>The writers of the server emit the serialized response and one terminator.\<close>

lemma writeOKResponse_one_terminator:
  "Marshal_Response js (okResponse message operationType) = Inr b \<Longrightarrow> \<not> closed c \<Longrightarrow>
     writeOKResponse js c message operationType = (None, c\<lparr>written := written c @ b @ EOFBytes\<rparr>)"
  by (simp add: writeOKResponse_def Write_def)

lemma writeErrorResponse_one_terminator:
  "Marshal_Response js (errorResponse e) = Inr b \<Longrightarrow> \<not> closed c \<Longrightarrow>
     writeErrorResponse js c e = \<lparr>written = written c @ b @ EOFBytes, closed = True\<rparr>"
  by (simp add: writeErrorResponse_def Write_def Close_def Let_def)

lemma writeErrorResponse_closes: "closed (writeErrorResponse js c e)"
  by (simp add: writeErrorResponse_def Close_def Let_def)

section \<open>Properties of the client's receiver loop\<close>

text \<open>
  Claim C9. A pass of the receiver loop that finds no value on \<open>quit\<close> and whose read
  ends because the deadline passed changes nothing and is followed by the next pass:
  after any number of such passes the loop goes on exactly as it would have without
  them, and if nothing else happens it is still running.
\<close>

theorem handleIncoming_timeout_retries:
  "handleIncoming js (replicate k (False, ReadFails DeadlineExceeded) @ rest) st
     = handleIncoming js rest st
   \<and> handleIncoming js (replicate k (False, ReadFails DeadlineExceeded)) st = Running st"
proof -
  have a: "handleIncoming js (replicate k (False, ReadFails DeadlineExceeded) @ more) st
     = handleIncoming js more st" for more
    by (induction k) (simp_all add: readJSONFrom_def)
  from a [of rest] a [of "[]"] show ?thesis by simp
qed


section \<open>Properties of the session loop and of message delivery\<close>

lemma ReadUntil_loop_err_nil: "snd (fst (ReadUntil_loop delim acc r)) = None"
proof (induction delim acc r rule: ReadUntil_loop.induct)
  case (1 delim returnBytes r)
  show ?case
    by (subst ReadUntil_loop.simps)
       (auto simp: Let_def split: prod.splits option.splits intro: 1)
qed

lemma ReadUntil_err_nil: "ReadUntil r delim = Returns ((b, e), r') \<Longrightarrow> e = None"
  using ReadUntil_loop_err_nil [of delim "[]" r]
  by (auto simp: ReadUntil_def split: if_splits)

lemma sublist_doesNotExist: "sublist n (doesNotExist n)"
  unfolding doesNotExist_def sublist_def
  by (rule exI [of _ "''conversation '' @ [quote]"],
      rule exI [of _ "[quote] @ '' does not exist''"]) simp

text \<open>
  Claim C2, as the code has it. When a pass of the session loop reads a subscribe
  operation whose nickname is absent from the registry, the server writes a response
  with status \<open>error\<close> whose message contains that nickname, followed by the
  terminator; it then closes the connection and leaves the loop, so that
  \<open>handleConnection\<close> returns with the rest of the input unread. The subscription
  set and the registry are unchanged.
\<close>

theorem subscribe_unknown_closes:
  assumes "ReadUntil (connReader s) EOFBytes = Returns ((request, e), r')"
    and "Unmarshal_Operation js request = Some operation"
    and "op_Type operation = SubscribeOperationType"
    and "op_Message operation = Some m"
    and "Unmarshal_Conversation js m = Some c"
    and "conversationsByNickname rg (conv_Nickname c) = None"
    and "\<not> closed (sess_conn s)"
    and "Marshal_Response js (errorResponse (doesNotExist (conv_Nickname c))) = Inr b"
  shows "\<exists>s'. handleConnection_iteration js newid s rg = Returns (Break, s', rg, None)
           \<and> handleConnection_loop js gen k s rg sent = Some (Returns (s', rg, sent))
           \<and> written (sess_conn s') = written (sess_conn s) @ b @ EOFBytes
           \<and> closed (sess_conn s')
           \<and> connReader s' = r'
           \<and> listenOn s' = listenOn s
           \<and> resp_Status (errorResponse (doesNotExist (conv_Nickname c))) = ''error''
           \<and> sublist (conv_Nickname c) (doesNotExist (conv_Nickname c))"
proof -
  have e: "e = None" using assms(1) by (rule ReadUntil_err_nil)
  have sub: "handleSubscribe js operation (listenOn s) rg
      = Returns (Some (doesNotExist (conv_Nickname c)), listenOn s)"
    using assms(4,5,6) by (simp add: handleSubscribe_def Let_def)
  have disp: "dispatch js operation u (listenOn s) rg
      = Returns (emptyJSON, Some (doesNotExist (conv_Nickname c)), listenOn s, rg, None)" for u
    using assms(3) sub
    by (simp add: dispatch_def SubscribeOperationType_def CreateOperationType_def)
  let ?s' = "s\<lparr>connReader := r', listenOn := listenOn s,
               sess_conn := writeErrorResponse js (sess_conn s) (doesNotExist (conv_Nickname c))\<rparr>"
  have it: "handleConnection_iteration js u s rg = Returns (Break, ?s', rg, None)" for u
    using assms(1,2) e disp
    by (simp add: handleConnection_iteration_def getOperation_def Let_def)
  have lp: "handleConnection_loop js gen k s rg sent = Some (Returns (?s', rg, sent))"
    by (subst handleConnection_loop.simps) (simp add: it)
  have w: "writeErrorResponse js (sess_conn s) (doesNotExist (conv_Nickname c))
      = \<lparr>written = written (sess_conn s) @ b @ EOFBytes, closed = True\<rparr>"
    using assms(7,8) by (rule writeErrorResponse_one_terminator [rotated])
  have st: "resp_Status (errorResponse (doesNotExist (conv_Nickname c))) = ''error''"
    by (simp add: errorResponse_def NewResponse_def)
  from it lp w st sublist_doesNotExist [of "conv_Nickname c"] show ?thesis
    by (intro exI [of _ ?s']) simp
qed

text \<open>
  Claim C7. In every state the server can reach from its initial state, whenever the
  subscriber goroutine of a connection processes the message it holds and thereby
  writes to its connection, the subscription set of that connection contains the
  identifier of the message's conversation at that moment.
\<close>

theorem delivery_only_to_subscribed:
  assumes "run js initialServer evs = Some s"
    and "exec js s (Deliver j) = Some s'"
    and "sentTo s' j \<noteq> sentTo s j"
  shows "\<exists>message conversation.
           companion (conns s ! j) = Holding message
         \<and> msg_Conversation message = Some conversation
         \<and> listenOn (sess (conns s ! j)) (conv_ID conversation) = Some True"
  using assms(2,3)
  by (auto simp: sentTo_def subscribeToMessages_receive_def subscribed_def
      split: if_splits subscriber.splits outcome.splits option.splits sum.splits)


section \<open>The model on sample inputs\<close>

lemmas sample_defs = sampleJSON_def sampleOperation_def sampleConversation_def sampleMessage_def
  sampleClientAboutMe_def trim_def frame_def docGhost_def docGeneral_def docAnonymous_def
  docAnn_def docBob_def docGeneralFull_def docHello_def emptyJSON_def encodeResponse_def
  general_def bob_def hello_def idGeneral_def idBob_def

lemmas server_defs = handleConnection_iteration_def getOperation_def dispatch_def
  handleSubscribe_def handleCreateConversation_def handleMessage_def handleListConversations_def
  writeErrorResponse_def writeOKResponse_def okResponse_def errorResponse_def NewResponse_def
  Write_def Close_def ReadUntil_def ReadUntil_loop.simps ReadBytes_def EOFBytes_def CR_def LF_def
  CreateOperationType_def SubscribeOperationType_def MessageOperationType_def
  ListOperationType_def AboutMeOperationType_def doesNotExist_def alreadyExists_def quote_def
  unmarshalingError_def

lemmas system_defs = handshake_def ParseClientAboutMe_def sendAboutMeResponse_def
  subscribeToMessages_receive_def subscribed_def initialServer_def emptyRegistry_def
  sentTo_def bobStream_def listenerStream_def twoSubscribers_def ackFrame_def helloFrame_def

theorem delivery_only_to_subscribed_witness:
  "\<exists>s s'. run sampleJSON initialServer publishToSelf = Some s
         \<and> exec sampleJSON s (Deliver 0) = Some s'
         \<and> sentTo s' 0 \<noteq> sentTo s 0
         \<and> (\<exists>message conversation.
               companion (conns s ! 0) = Holding message
             \<and> msg_Conversation message = Some conversation
             \<and> listenOn (sess (conns s ! 0)) (conv_ID conversation) = Some True)"
proof -
  have "case run sampleJSON initialServer publishToSelf of
          None \<Rightarrow> False
        | Some s \<Rightarrow> (case exec sampleJSON s (Deliver 0) of
                       None \<Rightarrow> False
                     | Some s' \<Rightarrow> sentTo s' 0 \<noteq> sentTo s 0)"
    by (simp add: Let_def publishToSelf_def sample_defs server_defs system_defs)
  then obtain s s' where r: "run sampleJSON initialServer publishToSelf = Some s"
    and d: "exec sampleJSON s (Deliver 0) = Some s'"
    and w: "sentTo s' 0 \<noteq> sentTo s 0"
    by (auto split: option.splits)
  from delivery_only_to_subscribed [OF r d w] r d w show ?thesis by blast
qed

theorem subscribe_unknown_closes_witness:
  "ReadUntil (connReader (freshSession ghostThenList)) EOFBytes
     = Returns ((frame ''subscribe'' docGhost @ EOFBytes, None),
                \<lparr>buffered = [], pending = [frame ''list'' emptyJSON @ EOFBytes]\<rparr>)
   \<and> Unmarshal_Operation sampleJSON (frame ''subscribe'' docGhost @ EOFBytes)
     = Some \<lparr>op_Type = ''subscribe'', op_Message = Some docGhost\<rparr>
   \<and> Unmarshal_Conversation sampleJSON docGhost = Some \<lparr>conv_ID = 0, conv_Nickname = ''ghost''\<rparr>
   \<and> conversationsByNickname emptyRegistry ''ghost'' = None
   \<and> \<not> closed (sess_conn (freshSession ghostThenList))
   \<and> (\<exists>s'. handleConnection_iteration sampleJSON 100 (freshSession ghostThenList) emptyRegistry
               = Returns (Break, s', emptyRegistry, None)
           \<and> handleConnection_loop sampleJSON sampleIDs 0 (freshSession ghostThenList)
                 emptyRegistry [] = Some (Returns (s', emptyRegistry, []))
           \<and> written (sess_conn s')
               = encodeResponse (errorResponse (doesNotExist ''ghost'')) @ EOFBytes
           \<and> closed (sess_conn s'))"
proof -
  have h1: "ReadUntil (connReader (freshSession ghostThenList)) EOFBytes
     = Returns ((frame ''subscribe'' docGhost @ EOFBytes, None),
                \<lparr>buffered = [], pending = [frame ''list'' emptyJSON @ EOFBytes]\<rparr>)"
    by (simp add: freshSession_def ghostThenList_def sample_defs server_defs)
  have h2: "Unmarshal_Operation sampleJSON (frame ''subscribe'' docGhost @ EOFBytes)
     = Some \<lparr>op_Type = ''subscribe'', op_Message = Some docGhost\<rparr>"
    by (simp add: sample_defs EOFBytes_def CR_def LF_def)
  have h3: "op_Type \<lparr>op_Type = ''subscribe'', op_Message = Some docGhost\<rparr> = SubscribeOperationType"
    by (simp add: SubscribeOperationType_def)
  have h4: "op_Message \<lparr>op_Type = ''subscribe'', op_Message = Some docGhost\<rparr> = Some docGhost"
    by simp
  have h5: "Unmarshal_Conversation sampleJSON docGhost = Some \<lparr>conv_ID = 0, conv_Nickname = ''ghost''\<rparr>"
    by (simp add: sample_defs CR_def LF_def)
  have h6: "conversationsByNickname emptyRegistry
              (conv_Nickname \<lparr>conv_ID = 0, conv_Nickname = ''ghost''\<rparr>) = None"
    by (simp add: emptyRegistry_def)
  have h7: "\<not> closed (sess_conn (freshSession ghostThenList))"
    by (simp add: freshSession_def)
  have h8: "Marshal_Response sampleJSON
              (errorResponse (doesNotExist (conv_Nickname \<lparr>conv_ID = 0, conv_Nickname = ''ghost''\<rparr>)))
            = Inr (encodeResponse (errorResponse (doesNotExist ''ghost'')))"
    by (simp add: sampleJSON_def)
  have w0: "written (sess_conn (freshSession ghostThenList)) = []"
    by (simp add: freshSession_def)
  from subscribe_unknown_closes [OF h1 h2 h3 h4 h5 h6 h7 h8, of 100 sampleIDs 0 "[]"]
  obtain s' where
    "handleConnection_iteration sampleJSON 100 (freshSession ghostThenList) emptyRegistry
       = Returns (Break, s', emptyRegistry, None)"
    "handleConnection_loop sampleJSON sampleIDs 0 (freshSession ghostThenList)
       emptyRegistry [] = Some (Returns (s', emptyRegistry, []))"
    "written (sess_conn s') = written (sess_conn (freshSession ghostThenList))
       @ encodeResponse (errorResponse (doesNotExist ''ghost'')) @ EOFBytes"
    "closed (sess_conn s')"
    by blast
  with h1 h2 h5 h6 h7 w0 show ?thesis by auto
qed


text \<open>
  The claim as stated fails: with the input \<open>subscribe ghost\<close> followed by \<open>list\<close> and
  an empty registry, the session loop returns after the first operation with the
  connection closed; the error response is all that was written and the \<open>list\<close>
  operation is left unread.
\<close>

theorem subscribe_unknown_ends_session:
  "conversationsByNickname emptyRegistry ''ghost'' = None
   \<and> (case handleConnection_loop sampleJSON sampleIDs 0 (freshSession ghostThenList)
            emptyRegistry [] of
         Some (Returns (s', r', sent)) \<Rightarrow>
           closed (sess_conn s')
           \<and> written (sess_conn s')
               = encodeResponse (errorResponse (doesNotExist ''ghost'')) @ EOFBytes
           \<and> remaining (connReader s') = frame ''list'' emptyJSON @ EOFBytes
       | _ \<Rightarrow> False)"
  by (simp add: handleConnection_loop.simps freshSession_def ghostThenList_def emptyRegistry_def
      remaining_def Let_def sample_defs server_defs)

text \<open>
  Claim C3 at its failing input. Two connections are subscribed to \<open>general\<close> and the
  first publishes \<open>hello\<close> on it. The send on the unbuffered channel is received by one
  subscriber goroutine. If that of connection 0 receives it, connection 0 is sent the
  message and connection 1 is sent nothing; if that of connection 1 receives it,
  connection 1 is sent the message and connection 0 only the acknowledgement. In both
  cases no goroutine holds a message afterwards, so nothing more will be delivered.
\<close>

theorem one_receiver_per_message:
  "(case run sampleJSON initialServer twoSubscribers of
      None \<Rightarrow> False
    | Some p \<Rightarrow>
        \<not> crashed p
        \<and> subscribed (listenOn (sess (conns p ! 0))) idGeneral
        \<and> subscribed (listenOn (sess (conns p ! 1))) idGeneral
        \<and> (case run sampleJSON p [Serve 0 104 0, Deliver 0] of
              None \<Rightarrow> False
            | Some t \<Rightarrow>
                sentTo t 0 = sentTo p 0 @ ackFrame @ helloFrame
                \<and> sentTo t 1 = sentTo p 1
                \<and> map companion (conns t) = [Selecting, Selecting])
        \<and> (case run sampleJSON p [Serve 0 104 1, Deliver 1] of
              None \<Rightarrow> False
            | Some t \<Rightarrow>
                sentTo t 0 = sentTo p 0 @ ackFrame
                \<and> sentTo t 1 = sentTo p 1 @ helloFrame
                \<and> map companion (conns t) = [Selecting, Selecting]))"
  by (simp add: Let_def sample_defs server_defs system_defs)
end
